theory Spec2Isabelle
  imports Complex_Main
begin

section \<open>Outcome of a Python call\<close>

text \<open>
  A call either returns a value or raises an exception; \<open>Raises\<close> carries the name of
  the exception class.  None of the embedded functions of the repository contains a
  \<^verbatim>\<open>raise\<close> statement, and their record-typed arguments have every column they
  read, so each of them is a \<open>Returns\<close> on every path.
\<close>

datatype 'a outcome = Returns 'a | Raises string

section \<open>Risk scoring engine (src/scoring/risk_engine.py)\<close>

text \<open>
  One row of the transaction frame.  The column \<^verbatim>\<open>type\<close> is called \<open>tx_type\<close>.
  Python floats are idealised as exact rationals; \<^verbatim>\<open>isFraud\<close> is an integer column.
  The frame of one customer is the list of its rows; the branches of the source that test
  whether a column is missing are not modelled, since the record has all columns.
\<close>

record transaction =
  nameOrig :: string
  tx_type :: string
  amount :: rat
  isFraud :: int

text \<open>\<^verbatim>\<open>self.weights\<close>\<close>

definition w_transaction_type :: rat where "w_transaction_type = 25 / 100"
definition w_amount_risk :: rat where "w_amount_risk = 30 / 100"
definition w_fraud_history :: rat where "w_fraud_history = 35 / 100"
definition w_cash_pattern :: rat where "w_cash_pattern = 10 / 100"

text \<open>\<^verbatim>\<open>self.thresholds\<close>\<close>

definition high_amount :: rat where "high_amount = 57838188 / 100"
definition medium_amount :: rat where "medium_amount = 100000"
definition low_risk :: rat where "low_risk = 30"
definition medium_risk :: rat where "medium_risk = 60"
definition high_risk :: rat where "high_risk = 85"

text \<open>\<^verbatim>\<open>self.tx_type_scores\<close>, a dictionary, and its \<^verbatim>\<open>.get(tx_type, 10)\<close>\<close>

definition tx_type_scores :: "string \<rightharpoonup> rat" where
  "tx_type_scores = map_of
     [(''TRANSFER'', 85), (''CASH_OUT'', 60), (''PAYMENT'', 10), (''CASH_IN'', 10), (''DEBIT'', 10)]"

definition tx_type_scores_get :: "string \<Rightarrow> rat" where
  "tx_type_scores_get t = (case tx_type_scores t of Some s \<Rightarrow> s | None \<Rightarrow> 10)"

text \<open>
  \<^verbatim>\<open>Series.value_counts()\<close>: the distinct values with their numbers of occurrences.
  pandas lists them by decreasing count; the loop over them only adds up exact
  rationals here, so the order is immaterial.  The local \<^verbatim>\<open>most_common_type\<close> of
  \<^verbatim>\<open>calculate_transaction_type_score\<close> is never read and is left out.
\<close>

definition value_counts :: "'a list \<Rightarrow> ('a \<times> nat) list" where
  "value_counts xs = map (\<lambda>x. (x, count_list xs x)) (remdups xs)"

definition calculate_transaction_type_score :: "transaction list \<Rightarrow> rat" where
  "calculate_transaction_type_score customer_data =
     (let type_counts = value_counts (map tx_type customer_data);
          total_tx = length customer_data;
          weighted_score = fold (\<lambda>(t, count) acc.
              acc + (of_nat count / of_nat total_tx) * tx_type_scores_get t) type_counts 0
      in min weighted_score 100)"

text \<open>\<^verbatim>\<open>Series.max()\<close> and \<^verbatim>\<open>Series.mean()\<close> on a non-empty column.\<close>

definition series_max :: "rat list \<Rightarrow> rat" where
  "series_max xs = fold max (tl xs) (hd xs)"

definition series_mean :: "rat list \<Rightarrow> rat" where
  "series_mean xs = sum_list xs / of_nat (length xs)"

definition calculate_amount_risk_score :: "transaction list \<Rightarrow> rat" where
  "calculate_amount_risk_score customer_data =
     (if length customer_data = 0 then 0
      else let max_amount = series_max (map amount customer_data);
               avg_amount = series_mean (map amount customer_data)
           in if max_amount \<ge> high_amount then 90
              else if max_amount \<ge> medium_amount then 60
              else if avg_amount \<ge> 50000 then 30
              else 10)"

definition calculate_fraud_history_score :: "transaction list \<Rightarrow> rat" where
  "calculate_fraud_history_score customer_data =
     (if length customer_data = 0 then 0
      else let fraud_count = sum_list (map isFraud customer_data);
               total_tx = length customer_data;
               fraud_rate = (if total_tx > 0 then of_int fraud_count / of_nat total_tx else 0 :: rat)
           in if fraud_rate \<ge> 5 / 10 then 100
              else if fraud_rate \<ge> 1 / 10 then 80
              else if fraud_count > 0 then 60
              else 0)"

definition calculate_cash_pattern_score :: "transaction list \<Rightarrow> rat" where
  "calculate_cash_pattern_score customer_data =
     (if length customer_data = 0 then 0
      else let cash_out_count = length (filter (\<lambda>tx. tx_type tx = ''CASH_OUT'') customer_data);
               total_tx = length customer_data;
               cash_out_rate = (if total_tx > 0 then of_nat cash_out_count / of_nat total_tx else 0 :: rat)
           in if cash_out_rate \<ge> 8 / 10 then 80
              else if cash_out_rate \<ge> 5 / 10 then 60
              else if cash_out_rate \<ge> 2 / 10 then 30
              else 10)"

definition get_risk_category :: "rat \<Rightarrow> string" where
  "get_risk_category score =
     (if score \<ge> high_risk then ''CRITICAL''
      else if score \<ge> medium_risk then ''HIGH''
      else if score \<ge> low_risk then ''MEDIUM''
      else ''LOW'')"

text \<open>
  \<^verbatim>\<open>round(x, 2)\<close>: the nearest multiple of 1/100, a tie going to the even one.
\<close>

definition round_half_even :: "rat \<Rightarrow> int" where
  "round_half_even y =
     (let f = \<lfloor>y\<rfloor>; d = y - of_int f
      in if d < 1 / 2 then f else if d > 1 / 2 then f + 1 else if even f then f else f + 1)"

definition round2 :: "rat \<Rightarrow> rat" where
  "round2 x = of_int (round_half_even (x * 100)) / 100"

record components =
  c_transaction_type :: rat
  c_amount_risk :: rat
  c_fraud_history :: rat
  c_cash_pattern :: rat

record risk_result =
  total_score :: rat
  risk_category :: string
  components :: components

definition calculate_customer_risk_score :: "transaction list \<Rightarrow> risk_result outcome" where
  "calculate_customer_risk_score customer_data =
     (let tx_type_score = calculate_transaction_type_score customer_data;
          amount_score = calculate_amount_risk_score customer_data;
          fraud_score = calculate_fraud_history_score customer_data;
          cash_score = calculate_cash_pattern_score customer_data;
          total = tx_type_score * w_transaction_type +
                  amount_score * w_amount_risk +
                  fraud_score * w_fraud_history +
                  cash_score * w_cash_pattern
      in Returns \<lparr>total_score = round2 total,
                  risk_category = get_risk_category total,
                  components = \<lparr>c_transaction_type = round2 tx_type_score,
                                c_amount_risk = round2 amount_score,
                                c_fraud_history = round2 fraud_score,
                                c_cash_pattern = round2 cash_score\<rparr>\<rparr>)"


text \<open>
  The weighted sum as the specification writes it:
  0.25 * type + 0.30 * amount + 0.35 * fraud + 0.10 * cash.
\<close>

definition weighted_sum :: "transaction list \<Rightarrow> rat" where
  "weighted_sum customer_data =
     25 / 100 * calculate_transaction_type_score customer_data +
     30 / 100 * calculate_amount_risk_score customer_data +
     35 / 100 * calculate_fraud_history_score customer_data +
     10 / 100 * calculate_cash_pattern_score customer_data"

section \<open>Alert engine (src/monitoring/alert_engine.py)\<close>

datatype AlertType =
  HIGH_RISK_CUSTOMER | PEP_DETECTED | SANCTIONS_MATCH | LARGE_TRANSACTION |
  SUSPICIOUS_PATTERN | FRAUD_INDICATOR

fun AlertType_value :: "AlertType \<Rightarrow> string" where
  "AlertType_value HIGH_RISK_CUSTOMER = ''HIGH_RISK_CUSTOMER''"
| "AlertType_value PEP_DETECTED = ''PEP_DETECTED''"
| "AlertType_value SANCTIONS_MATCH = ''SANCTIONS_MATCH''"
| "AlertType_value LARGE_TRANSACTION = ''LARGE_TRANSACTION''"
| "AlertType_value SUSPICIOUS_PATTERN = ''SUSPICIOUS_PATTERN''"
| "AlertType_value FRAUD_INDICATOR = ''FRAUD_INDICATOR''"

datatype AlertPriority = CRITICAL | HIGH | MEDIUM | LOW

fun AlertPriority_value :: "AlertPriority \<Rightarrow> string" where
  "AlertPriority_value CRITICAL = ''CRITICAL''"
| "AlertPriority_value HIGH = ''HIGH''"
| "AlertPriority_value MEDIUM = ''MEDIUM''"
| "AlertPriority_value LOW = ''LOW''"

text \<open>\<^verbatim>\<open>self.alert_thresholds\<close>\<close>

definition critical_risk_score :: rat where "critical_risk_score = 85"
definition high_risk_score :: rat where "high_risk_score = 60"
definition large_transaction :: rat where "large_transaction = 100000"
definition fraud_count_threshold :: int where "fraud_count_threshold = 1"
definition pep_alert :: bool where "pep_alert = True"
definition sanctions_alert :: bool where "sanctions_alert = True"

text \<open>\<^verbatim>\<open>self.alert_rules\<close>: every member of \<open>AlertType\<close> is a key, so the lookup never fails.\<close>

fun alert_rules :: "AlertType \<Rightarrow> AlertPriority \<times> string" where
  "alert_rules HIGH_RISK_CUSTOMER = (HIGH, ''Customer risk score exceeds threshold'')"
| "alert_rules PEP_DETECTED = (CRITICAL, ''Politically Exposed Person identified'')"
| "alert_rules SANCTIONS_MATCH = (CRITICAL, ''Customer from sanctioned jurisdiction'')"
| "alert_rules LARGE_TRANSACTION = (MEDIUM, ''Large transaction amount detected'')"
| "alert_rules SUSPICIOUS_PATTERN = (HIGH, ''Suspicious transaction pattern identified'')"
| "alert_rules FRAUD_INDICATOR = (CRITICAL, ''Historical fraud activity detected'')"

text \<open>
  The dictionary built by \<^verbatim>\<open>_create_alert\<close>.  The key \<^verbatim>\<open>customer_id\<close> is the field
  \<open>alert_customer_id\<close>.
\<close>

record alert =
  alert_id :: string
  alert_customer_id :: string
  alert_type :: string
  priority :: string
  description :: string
  details :: string
  risk_level :: string

text \<open>
  A row of the enriched profile frame.  The two columns the source tests with
  \<^verbatim>\<open>in customer\<close> are optional.
\<close>

record customer =
  customer_id :: string
  enhanced_risk_score :: rat
  is_pep :: bool
  pep_category :: string
  occupation :: string
  sanctions_risk :: bool
  nationality :: string
  fraud_count :: "int option"
  total_amount :: "rat option"

text \<open>
  Python's conversion of numbers to text inside the f-strings is not modelled; the three
  conversions the source uses are parameters: \<^verbatim>\<open>{x}\<close> for a float, \<^verbatim>\<open>{n}\<close> for an
  integer and \<^verbatim>\<open>{x:,.2f}\<close>.
\<close>

record py_format =
  str_float :: "rat \<Rightarrow> string"
  str_int :: "int \<Rightarrow> string"
  fmt_money :: "rat \<Rightarrow> string"

definition determine_risk_level :: "AlertType \<Rightarrow> string" where
  "determine_risk_level t =
     (let critical_alerts = [PEP_DETECTED, SANCTIONS_MATCH, FRAUD_INDICATOR];
          high_alerts = [HIGH_RISK_CUSTOMER, SUSPICIOUS_PATTERN]
      in if t \<in> set critical_alerts then ''CRITICAL''
         else if t \<in> set high_alerts then ''HIGH''
         else ''MEDIUM'')"

text \<open>The first argument is the value \<^verbatim>\<open>uuid.uuid4()\<close> returns in this call.\<close>

definition create_alert :: "string \<Rightarrow> string \<Rightarrow> AlertType \<Rightarrow> string \<Rightarrow> alert" where
  "create_alert uuid cid t dtl =
     (let rule = alert_rules t
      in \<lparr>alert_id = uuid,
          alert_customer_id = cid,
          alert_type = AlertType_value t,
          priority = AlertPriority_value (fst rule),
          description = snd rule,
          details = dtl,
          risk_level = determine_risk_level t\<rparr>)"

text \<open>
  \<open>uuid4 k\<close> is the identifier handed out by the k-th call of \<^verbatim>\<open>uuid.uuid4()\<close> of this
  evaluation, counted from 0: the alert appended to a list of k alerts gets \<open>uuid4 k\<close>.
\<close>

definition evaluate_customer_alerts :: "py_format \<Rightarrow> (nat \<Rightarrow> string) \<Rightarrow> customer \<Rightarrow> alert list" where
  "evaluate_customer_alerts fmt uuid4 c =
     (let alerts = [];
          alerts =
            (if enhanced_risk_score c \<ge> critical_risk_score then
               alerts @ [create_alert (uuid4 (length alerts)) (customer_id c) HIGH_RISK_CUSTOMER
                 (''Critical risk score: '' @ str_float fmt (enhanced_risk_score c))]
             else if enhanced_risk_score c \<ge> high_risk_score then
               alerts @ [create_alert (uuid4 (length alerts)) (customer_id c) HIGH_RISK_CUSTOMER
                 (''High risk score: '' @ str_float fmt (enhanced_risk_score c))]
             else alerts);
          alerts =
            (if is_pep c \<and> pep_alert then
               alerts @ [create_alert (uuid4 (length alerts)) (customer_id c) PEP_DETECTED
                 (''PEP Category: '' @ pep_category c @ '', Occupation: '' @ occupation c)]
             else alerts);
          alerts =
            (if sanctions_risk c \<and> sanctions_alert then
               alerts @ [create_alert (uuid4 (length alerts)) (customer_id c) SANCTIONS_MATCH
                 (''Sanctioned jurisdiction: '' @ nationality c)]
             else alerts);
          alerts =
            (case fraud_count c of
               Some n \<Rightarrow>
                 if n \<ge> fraud_count_threshold then
                   alerts @ [create_alert (uuid4 (length alerts)) (customer_id c) FRAUD_INDICATOR
                     (''Fraud history: '' @ str_int fmt n @ '' incidents'')]
                 else alerts
             | None \<Rightarrow> alerts);
          alerts =
            (case total_amount c of
               Some a \<Rightarrow>
                 if a \<ge> large_transaction then
                   alerts @ [create_alert (uuid4 (length alerts)) (customer_id c) LARGE_TRANSACTION
                     (''Large transaction volume: $'' @ fmt_money fmt a)]
                 else alerts
             | None \<Rightarrow> alerts)
      in alerts)"

text \<open>
  The loop of \<^verbatim>\<open>generate_alerts\<close> over the profiles, the identifiers being numbered
  through the whole pass, and the three columns it adds to every row.
\<close>

fun extend_alerts :: "py_format \<Rightarrow> (nat \<Rightarrow> string) \<Rightarrow> alert list \<Rightarrow> customer list \<Rightarrow> alert list" where
  "extend_alerts fmt uuid4 alerts [] = alerts"
| "extend_alerts fmt uuid4 alerts (c # cs) =
     extend_alerts fmt uuid4
       (alerts @ evaluate_customer_alerts fmt (\<lambda>k. uuid4 (length alerts + k)) c) cs"

record alert_row = alert +
  alert_created_at :: int
  alert_status :: string
  alert_assigned_to :: "string option"

definition generate_alerts ::
  "py_format \<Rightarrow> (nat \<Rightarrow> string) \<Rightarrow> int \<Rightarrow> customer list \<Rightarrow> alert_row list" where
  "generate_alerts fmt uuid4 now customer_profiles =
     map (\<lambda>a. alert.extend a
            \<lparr>alert_created_at = now, alert_status = ''OPEN'', alert_assigned_to = None\<rparr>)
         (extend_alerts fmt uuid4 [] customer_profiles)"

section \<open>Case manager (src/monitoring/case_manager.py)\<close>

datatype CaseStatus = OPEN | IN_PROGRESS | UNDER_REVIEW | CLOSED | ESCALATED

fun CaseStatus_value :: "CaseStatus \<Rightarrow> string" where
  "CaseStatus_value OPEN = ''OPEN''"
| "CaseStatus_value IN_PROGRESS = ''IN_PROGRESS''"
| "CaseStatus_value UNDER_REVIEW = ''UNDER_REVIEW''"
| "CaseStatus_value CLOSED = ''CLOSED''"
| "CaseStatus_value ESCALATED = ''ESCALATED''"

datatype CaseType =
  AML_INVESTIGATION | PEP_REVIEW | SANCTIONS_CHECK | FRAUD_INVESTIGATION | ENHANCED_DUE_DILIGENCE

fun CaseType_value :: "CaseType \<Rightarrow> string" where
  "CaseType_value AML_INVESTIGATION = ''AML_INVESTIGATION''"
| "CaseType_value PEP_REVIEW = ''PEP_REVIEW''"
| "CaseType_value SANCTIONS_CHECK = ''SANCTIONS_CHECK''"
| "CaseType_value FRAUD_INVESTIGATION = ''FRAUD_INVESTIGATION''"
| "CaseType_value ENHANCED_DUE_DILIGENCE = ''ENHANCED_DUE_DILIGENCE''"

text \<open>
  A row of \<^verbatim>\<open>self.cases\<close>.  Instants are integers, in microseconds (the resolution of
  \<^verbatim>\<open>datetime\<close>).  The columns \<^verbatim>\<open>last_updated\<close>, \<^verbatim>\<open>closed_at\<close> and \<^verbatim>\<open>resolution\<close>
  appear on the first assignment to them and are missing (\<open>None\<close>) in the rows not
  assigned.  The keys that also name alert fields carry the prefix \<open>case_\<close>.
\<close>

record aml_case =
  case_id :: string
  case_customer_id :: string
  case_alert_id :: string
  case_type :: string
  case_priority :: string
  status :: string
  created_at :: int
  assigned_to :: string
  due_date :: int
  case_description :: string
  case_risk_level :: string
  last_updated :: "int option"
  closed_at :: "int option"
  resolution :: "string option"

text \<open>A row of \<^verbatim>\<open>self.case_actions\<close>.\<close>

record case_action =
  action_id :: string
  action_case_id :: string
  action_type :: string
  action_description :: string
  analyst_name :: string
  timestamp :: int

record manager =
  cases :: "aml_case list"
  case_actions :: "case_action list"

definition AMLCaseManager_init :: manager where
  "AMLCaseManager_init = \<lparr>cases = [], case_actions = []\<rparr>"

text \<open>\<^verbatim>\<open>self.sla_hours\<close> and \<^verbatim>\<open>timedelta(hours=h)\<close>\<close>

definition sla_hours :: "string \<rightharpoonup> int" where
  "sla_hours = map_of [(''CRITICAL'', 4), (''HIGH'', 24), (''MEDIUM'', 72), (''LOW'', 168)]"

definition timedelta_hours :: "int \<Rightarrow> int" where
  "timedelta_hours h = h * 3600 * 1000000"

definition determine_case_type :: "string \<Rightarrow> CaseType" where
  "determine_case_type t =
     (case map_of [(''PEP_DETECTED'', PEP_REVIEW),
                   (''SANCTIONS_MATCH'', SANCTIONS_CHECK),
                   (''FRAUD_INDICATOR'', FRAUD_INVESTIGATION),
                   (''HIGH_RISK_CUSTOMER'', ENHANCED_DUE_DILIGENCE),
                   (''LARGE_TRANSACTION'', AML_INVESTIGATION),
                   (''SUSPICIOUS_PATTERN'', AML_INVESTIGATION)] t of
        Some ct \<Rightarrow> ct
      | None \<Rightarrow> AML_INVESTIGATION)"

definition auto_assign_case :: "string \<Rightarrow> string" where
  "auto_assign_case p =
     (if p = ''CRITICAL'' then ''Senior_AML_Analyst''
      else if p = ''HIGH'' then ''AML_Analyst_Team''
      else ''Junior_AML_Analyst'')"

text \<open>
  Every call of \<^verbatim>\<open>datetime.now()\<close> and of \<^verbatim>\<open>uuid.uuid4()\<close> is an argument of the
  function that makes it, the arguments standing in the order in which the source
  makes the calls.  \<open>calculate_due_date\<close> reads the clock itself.
\<close>

definition calculate_due_date :: "int \<Rightarrow> string \<Rightarrow> int" where
  "calculate_due_date now p =
     (let hours = (case sla_hours p of Some h \<Rightarrow> h | None \<Rightarrow> 168)
      in now + timedelta_hours hours)"

definition log_case_action ::
  "string \<Rightarrow> int \<Rightarrow> manager \<Rightarrow> string \<Rightarrow> string \<Rightarrow> string \<Rightarrow> string \<Rightarrow> manager" where
  "log_case_action uuid now m cid atype descr analyst =
     (let action = \<lparr>action_id = uuid,
                    action_case_id = cid,
                    action_type = atype,
                    action_description = descr,
                    analyst_name = analyst,
                    timestamp = now\<rparr>
      in m\<lparr>case_actions := case_actions m @ [action]\<rparr>)"

text \<open>
  \<open>create_case_from_alert\<close>: \<open>uuid_case\<close> and \<open>now_created\<close> are read for the keys
  \<^verbatim>\<open>case_id\<close> and \<^verbatim>\<open>created_at\<close>, \<open>now_due\<close> inside \<^verbatim>\<open>_calculate_due_date\<close>,
  \<open>uuid_action\<close> and \<open>now_log\<close> inside \<^verbatim>\<open>_log_case_action\<close>.  The result is the new
  state with the returned \<^verbatim>\<open>case_id\<close>.
\<close>

definition create_case_from_alert ::
  "string \<Rightarrow> int \<Rightarrow> int \<Rightarrow> string \<Rightarrow> int \<Rightarrow> manager \<Rightarrow> 'a alert_scheme \<Rightarrow> (manager \<times> string) outcome" where
  "create_case_from_alert uuid_case now_created now_due uuid_action now_log m a =
     (let ctype = determine_case_type (alert_type a);
          c = \<lparr>case_id = uuid_case,
               case_customer_id = alert_customer_id a,
               case_alert_id = alert_id a,
               case_type = CaseType_value ctype,
               case_priority = priority a,
               status = CaseStatus_value OPEN,
               created_at = now_created,
               assigned_to = auto_assign_case (priority a),
               due_date = calculate_due_date now_due (priority a),
               case_description = ''Investigation case for '' @ alert_type a @ '': '' @ details a,
               case_risk_level = risk_level a,
               last_updated = None,
               closed_at = None,
               resolution = None\<rparr>;
          m1 = m\<lparr>cases := cases m @ [c]\<rparr>;
          m2 = log_case_action uuid_action now_log m1 (case_id c) ''CASE_CREATED''
                 ''Case automatically created from alert'' ''SYSTEM''
      in Returns (m2, case_id c))"

text \<open>
  \<^verbatim>\<open>mask = self.cases['case_id'] == case_id\<close>, \<^verbatim>\<open>mask.any()\<close> and the assignment
  \<^verbatim>\<open>self.cases.loc[mask, column] = value\<close>, with the update of the column as argument.
\<close>

definition mask_any :: "manager \<Rightarrow> string \<Rightarrow> bool" where
  "mask_any m cid = list_ex (\<lambda>c. case_id c = cid) (cases m)"

definition loc_assign :: "manager \<Rightarrow> string \<Rightarrow> (aml_case \<Rightarrow> aml_case) \<Rightarrow> manager" where
  "loc_assign m cid upd = m\<lparr>cases := map (\<lambda>c. if case_id c = cid then upd c else c) (cases m)\<rparr>"

definition update_case_status ::
  "int \<Rightarrow> string \<Rightarrow> int \<Rightarrow> manager \<Rightarrow> string \<Rightarrow> string \<Rightarrow> string \<Rightarrow> manager outcome" where
  "update_case_status now_updated uuid_action now_log m cid new_status notes =
     (if length (cases m) > 0 then
        if mask_any m cid then
          let old_status = status (hd (filter (\<lambda>c. case_id c = cid) (cases m)));
              m1 = loc_assign m cid (\<lambda>c. c\<lparr>status := new_status\<rparr>);
              m2 = loc_assign m1 cid (\<lambda>c. c\<lparr>last_updated := Some now_updated\<rparr>)
          in Returns (log_case_action uuid_action now_log m2 cid ''STATUS_CHANGED''
               (''Status changed from '' @ old_status @ '' to '' @ new_status @ ''. '' @ notes)
               ''SYSTEM'')
        else Returns m
      else Returns m)"


definition add_case_notes ::
  "string \<Rightarrow> int \<Rightarrow> manager \<Rightarrow> string \<Rightarrow> string \<Rightarrow> string \<Rightarrow> manager outcome" where
  "add_case_notes uuid_action now_log m cid notes analyst =
     Returns (log_case_action uuid_action now_log m cid ''NOTES_ADDED'' notes analyst)"

text \<open>
  \<open>close_case\<close>: the first three arguments are read by the call of
  \<open>update_case_status\<close> (when it finds the case), the next two by the log of
  \<^verbatim>\<open>CASE_CLOSED\<close>, the last for \<^verbatim>\<open>closed_at\<close>.
\<close>

definition close_case ::
  "int \<Rightarrow> string \<Rightarrow> int \<Rightarrow> string \<Rightarrow> int \<Rightarrow> int \<Rightarrow> manager \<Rightarrow> string \<Rightarrow> string \<Rightarrow> string \<Rightarrow> manager outcome" where
  "close_case now_updated uuid_status now_status uuid_closed now_log now_closed m cid res analyst =
     (case update_case_status now_updated uuid_status now_status m cid (CaseStatus_value CLOSED) [] of
        Raises e \<Rightarrow> Raises e
      | Returns m1 \<Rightarrow>
          let m2 = log_case_action uuid_closed now_log m1 cid ''CASE_CLOSED''
                     (''Case closed. Resolution: '' @ res) analyst
          in if length (cases m2) > 0 then
               if mask_any m2 cid then
                 let m3 = loc_assign m2 cid (\<lambda>c. c\<lparr>closed_at := Some now_closed\<rparr>);
                     m4 = loc_assign m3 cid (\<lambda>c. c\<lparr>resolution := Some res\<rparr>)
                 in Returns m4
               else Returns m2
             else Returns m2)"

section \<open>The properties, as predicates on the model\<close>

text \<open>
  The classification of the specification, on the names of the alert types:
  PEP_DETECTED, SANCTIONS_MATCH and FRAUD_INDICATOR are CRITICAL, HIGH_RISK_CUSTOMER and
  SUSPICIOUS_PATTERN are HIGH, every other type is MEDIUM.
\<close>

definition spec_risk_level :: "string \<Rightarrow> string" where
  "spec_risk_level t =
     (if t = ''PEP_DETECTED'' \<or> t = ''SANCTIONS_MATCH'' \<or> t = ''FRAUD_INDICATOR'' then ''CRITICAL''
      else if t = ''HIGH_RISK_CUSTOMER'' \<or> t = ''SUSPICIOUS_PATTERN'' then ''HIGH''
      else ''MEDIUM'')"

text \<open>
  The service levels of the specification, in hours: CRITICAL 4, HIGH 24, MEDIUM 72,
  LOW and every other priority 168.
\<close>

definition spec_sla_hours :: "string \<Rightarrow> int" where
  "spec_sla_hours p =
     (if p = ''CRITICAL'' then 4 else if p = ''HIGH'' then 24 else if p = ''MEDIUM'' then 72 else 168)"






section \<open>Sample inputs\<close>


text \<open>
  A customer whose weighted sum, 6119/204, lies just below 30: one TRANSFER of 150000,
  25 CASH_OUT and 25 PAYMENT of 100 each, none marked as fraud.
\<close>

definition boundary_customer :: "transaction list" where
  "boundary_customer =
     \<lparr>nameOrig = ''C2'', tx_type = ''TRANSFER'', amount = 150000, isFraud = 0\<rparr> #
     replicate 25 \<lparr>nameOrig = ''C2'', tx_type = ''CASH_OUT'', amount = 100, isFraud = 0\<rparr> @
     replicate 25 \<lparr>nameOrig = ''C2'', tx_type = ''PAYMENT'', amount = 100, isFraud = 0\<rparr>"

text \<open>
  A profile with score 90 of a PEP, with no sanctions risk and no fraud, and a profile
  with score 70.  The number formats of the samples render the values that occur in
  them.
\<close>

definition sample_format :: py_format where
  "sample_format = \<lparr>str_float = (\<lambda>x. if x = 90 then ''90.0'' else ''70.0''),
                     str_int = (\<lambda>n. ''0''),
                     fmt_money = (\<lambda>x. ''0.00'')\<rparr>"

definition sample_uuid4 :: "nat \<Rightarrow> string" where
  "sample_uuid4 k = ''alert-'' @ replicate k (CHR ''i'')"

definition pep_profile :: customer where
  "pep_profile = \<lparr>customer_id = ''C100'', enhanced_risk_score = 90, is_pep = True,
                   pep_category = ''DOMESTIC_PEP'', occupation = ''Judge'',
                   sanctions_risk = False, nationality = ''US'',
                   fraud_count = Some 0, total_amount = None\<rparr>"

definition high_profile :: customer where
  "high_profile = \<lparr>customer_id = ''C200'', enhanced_risk_score = 70, is_pep = False,
                    pep_category = ''NOT_PEP'', occupation = ''Teacher'',
                    sanctions_risk = False, nationality = ''DE'',
                    fraud_count = Some 0, total_amount = None\<rparr>"

definition pep_alert_row :: alert where
  "pep_alert_row = \<lparr>alert_id = ''alert-i'', alert_customer_id = ''C100'',
                     alert_type = ''PEP_DETECTED'', priority = ''CRITICAL'',
                     description = ''Politically Exposed Person identified'',
                     details = ''PEP Category: DOMESTIC_PEP, Occupation: Judge'',
                     risk_level = ''CRITICAL''\<rparr>"

text \<open>
  The case manager after \<open>create_case_from_alert\<close> on that alert (clock readings 10, 11
  and 12), and after \<open>close_case\<close> on the new case (clock readings 20 to 23).
\<close>

definition pep_case :: aml_case where
  "pep_case = \<lparr>case_id = ''case-1'', case_customer_id = ''C100'', case_alert_id = ''alert-i'',
                case_type = ''PEP_REVIEW'', case_priority = ''CRITICAL'', status = ''OPEN'',
                created_at = 10, assigned_to = ''Senior_AML_Analyst'',
                due_date = 14400000011,
                case_description =
                  ''Investigation case for PEP_DETECTED: PEP Category: DOMESTIC_PEP, Occupation: Judge'',
                case_risk_level = ''CRITICAL'',
                last_updated = None, closed_at = None, resolution = None\<rparr>"

definition created_action :: case_action where
  "created_action = \<lparr>action_id = ''action-1'', action_case_id = ''case-1'',
                      action_type = ''CASE_CREATED'',
                      action_description = ''Case automatically created from alert'',
                      analyst_name = ''SYSTEM'', timestamp = 12\<rparr>"

definition one_case_manager :: manager where
  "one_case_manager = \<lparr>cases = [pep_case], case_actions = [created_action]\<rparr>"

definition closed_manager :: manager where
  "closed_manager =
     \<lparr>cases = [pep_case\<lparr>status := ''CLOSED'', last_updated := Some 20, closed_at := Some 23,
                         resolution := Some ''False positive''\<rparr>],
      case_actions =
        [created_action,
         \<lparr>action_id = ''action-2'', action_case_id = ''case-1'', action_type = ''STATUS_CHANGED'',
          action_description = ''Status changed from OPEN to CLOSED. '',
          analyst_name = ''SYSTEM'', timestamp = 21\<rparr>,
         \<lparr>action_id = ''action-3'', action_case_id = ''case-1'', action_type = ''CASE_CLOSED'',
          action_description = ''Case closed. Resolution: False positive'',
          analyst_name = ''AML_Analyst_2'', timestamp = 22\<rparr>]\<rparr>"


section \<open>Rounding and the category thresholds\<close>








section \<open>The component scores and the total score\<close>

















lemma boundary_sum: "weighted_sum boundary_customer = 6119 / 204"
  unfolding boundary_customer_def by code_simp



text \<open>
  Claim C2, as the source has it.  Scoring an empty transaction set returns: the score
  is 0, the category LOW and the four components 0.
\<close>

theorem empty_input_scores_zero:
  "calculate_customer_risk_score [] =
     Returns \<lparr>total_score = 0, risk_category = ''LOW'',
              components = \<lparr>c_transaction_type = 0, c_amount_risk = 0,
                            c_fraud_history = 0, c_cash_pattern = 0\<rparr>\<rparr>"
  by code_simp

text \<open>The call on the empty set raises no EmptyInputError and returns a score and a category.\<close>

theorem empty_input_no_error:
  "calculate_customer_risk_score [] \<noteq> Raises ''EmptyInputError'' \<and>
   (case calculate_customer_risk_score [] of
      Returns r \<Rightarrow> total_score r = 0 \<and> risk_category r = ''LOW''
    | Raises e \<Rightarrow> False)"
  by code_simp


section \<open>The alerts of one evaluation\<close>

lemma create_alert_fields:
  "alert_type (create_alert u cid t d) = AlertType_value t"
  "priority (create_alert u cid t d) = AlertPriority_value (fst (alert_rules t))"
  "risk_level (create_alert u cid t d) = determine_risk_level t"
  "alert_id (create_alert u cid t d) = u"
  by (simp_all add: create_alert_def Let_def)

lemma determine_risk_level_table:
  "determine_risk_level t = spec_risk_level (AlertType_value t)"
  by (cases t) (simp_all add: determine_risk_level_def spec_risk_level_def)

lemma create_alert_risk_level:
  "risk_level (create_alert u cid t d) = spec_risk_level (alert_type (create_alert u cid t d))"
  by (simp add: create_alert_fields determine_risk_level_table)

lemma append_if: "(if b then xs @ [x] else xs) = xs @ (if b then [x] else [])"
  by simp

lemma append_if2:
  "(if a then xs @ [x] else if b then xs @ [y] else xs) = xs @ (if a then [x] else if b then [y] else [])"
  by simp

lemma append_case_option:
  "(case v of Some n \<Rightarrow> xs @ g n | None \<Rightarrow> xs) =
   xs @ (case v of Some n \<Rightarrow> g n | None \<Rightarrow> [])"
  by (simp split: option.split)

text \<open>
  The alerts of a profile are the concatenation of five lists, one for each rule, each
  empty or of one alert.
\<close>

lemma evaluate_decompose:
  "\<exists>s1 s2 s3 s4 s5.
     evaluate_customer_alerts fmt uuid4 c = s1 @ s2 @ s3 @ s4 @ s5 \<and>
     s1 = (if enhanced_risk_score c \<ge> critical_risk_score then
             [create_alert (uuid4 0) (customer_id c) HIGH_RISK_CUSTOMER
                (''Critical risk score: '' @ str_float fmt (enhanced_risk_score c))]
           else if enhanced_risk_score c \<ge> high_risk_score then
             [create_alert (uuid4 0) (customer_id c) HIGH_RISK_CUSTOMER
                (''High risk score: '' @ str_float fmt (enhanced_risk_score c))]
           else []) \<and>
     s2 = (if is_pep c \<and> pep_alert then
             [create_alert (uuid4 (length s1)) (customer_id c) PEP_DETECTED
                (''PEP Category: '' @ pep_category c @ '', Occupation: '' @ occupation c)]
           else []) \<and>
     s3 = (if sanctions_risk c \<and> sanctions_alert then
             [create_alert (uuid4 (length (s1 @ s2))) (customer_id c) SANCTIONS_MATCH
                (''Sanctioned jurisdiction: '' @ nationality c)]
           else []) \<and>
     s4 = (case fraud_count c of
             Some n \<Rightarrow> if n \<ge> fraud_count_threshold then
                 [create_alert (uuid4 (length (s1 @ s2 @ s3))) (customer_id c) FRAUD_INDICATOR
                    (''Fraud history: '' @ str_int fmt n @ '' incidents'')]
               else []
           | None \<Rightarrow> []) \<and>
     s5 = (case total_amount c of
             Some a \<Rightarrow> if a \<ge> large_transaction then
                 [create_alert (uuid4 (length (s1 @ s2 @ s3 @ s4))) (customer_id c) LARGE_TRANSACTION
                    (''Large transaction volume: $'' @ fmt_money fmt a)]
               else []
           | None \<Rightarrow> [])"
  unfolding evaluate_customer_alerts_def
  apply (simp only: Let_def append_if2 append_if append_case_option append_Nil append_assoc
      list.size(3))
  apply (intro exI conjI)
       apply (rule refl)+
  done


lemma evaluate_alerts_created:
  assumes "a \<in> set (evaluate_customer_alerts fmt uuid4 c)"
  shows "\<exists>u t d. a = create_alert u (customer_id c) t d"
proof -
  obtain s1 s2 s3 s4 s5 where
    eq: "evaluate_customer_alerts fmt uuid4 c = s1 @ s2 @ s3 @ s4 @ s5"
    and s1: "s1 = (if enhanced_risk_score c \<ge> critical_risk_score then
             [create_alert (uuid4 0) (customer_id c) HIGH_RISK_CUSTOMER
                (''Critical risk score: '' @ str_float fmt (enhanced_risk_score c))]
           else if enhanced_risk_score c \<ge> high_risk_score then
             [create_alert (uuid4 0) (customer_id c) HIGH_RISK_CUSTOMER
                (''High risk score: '' @ str_float fmt (enhanced_risk_score c))]
           else [])"
    and s2: "s2 = (if is_pep c \<and> pep_alert then
             [create_alert (uuid4 (length s1)) (customer_id c) PEP_DETECTED
                (''PEP Category: '' @ pep_category c @ '', Occupation: '' @ occupation c)]
           else [])"
    and s3: "s3 = (if sanctions_risk c \<and> sanctions_alert then
             [create_alert (uuid4 (length (s1 @ s2))) (customer_id c) SANCTIONS_MATCH
                (''Sanctioned jurisdiction: '' @ nationality c)]
           else [])"
    and s4: "s4 = (case fraud_count c of
             Some n \<Rightarrow> if n \<ge> fraud_count_threshold then
                 [create_alert (uuid4 (length (s1 @ s2 @ s3))) (customer_id c) FRAUD_INDICATOR
                    (''Fraud history: '' @ str_int fmt n @ '' incidents'')]
               else []
           | None \<Rightarrow> [])"
    and s5: "s5 = (case total_amount c of
             Some a \<Rightarrow> if a \<ge> large_transaction then
                 [create_alert (uuid4 (length (s1 @ s2 @ s3 @ s4))) (customer_id c) LARGE_TRANSACTION
                    (''Large transaction volume: $'' @ fmt_money fmt a)]
               else []
           | None \<Rightarrow> [])"
    using evaluate_decompose [of fmt uuid4 c] by blast
  from assms eq consider "a \<in> set s1" | "a \<in> set s2" | "a \<in> set s3" | "a \<in> set s4" | "a \<in> set s5"
    by auto
  then show ?thesis
  proof cases
    case 1 with s1 show ?thesis by (auto split: if_splits)
  next
    case 2 with s2 show ?thesis by (auto split: if_splits)
  next
    case 3 with s3 show ?thesis by (auto split: if_splits)
  next
    case 4 with s4 show ?thesis by (auto split: if_splits option.splits)
  next
    case 5 with s5 show ?thesis by (auto split: if_splits option.splits)
  qed
qed

lemma extend_alerts_created:
  assumes "a \<in> set (extend_alerts fmt uuid4 alerts cs)"
    and "\<forall>b \<in> set alerts. \<exists>u cid t d. b = create_alert u cid t d"
  shows "\<exists>u cid t d. a = create_alert u cid t d"
  using assms
proof (induction cs arbitrary: alerts)
  case Nil
  then show ?case by simp
next
  case (Cons c cs)
  let ?new = "evaluate_customer_alerts fmt (\<lambda>k. uuid4 (length alerts + k)) c"
  have "\<forall>b \<in> set (alerts @ ?new). \<exists>u cid t d. b = create_alert u cid t d"
  proof
    fix b assume "b \<in> set (alerts @ ?new)"
    then consider "b \<in> set alerts" | "b \<in> set ?new" by auto
    then show "\<exists>u cid t d. b = create_alert u cid t d"
    proof cases
      case 1 with Cons.prems(2) show ?thesis by blast
    next
      case 2 then show ?thesis using evaluate_alerts_created by blast
    qed
  qed
  with Cons.IH [of "alerts @ ?new"] Cons.prems(1) show ?case by simp
qed

text \<open>
  Claim C4.  The risk level of every alert is determined by its alert type alone, by the
  fixed table: PEP_DETECTED, SANCTIONS_MATCH and FRAUD_INDICATOR are CRITICAL,
  HIGH_RISK_CUSTOMER and SUSPICIOUS_PATTERN are HIGH, every other type is MEDIUM.  This
  holds of every alert \<open>create_alert\<close> builds, whatever its type, and so of every alert
  of the evaluation of a profile and of a whole pass of \<open>generate_alerts\<close>, whatever
  the rule that produced it and the priority it carries.
\<close>

theorem risk_level_by_alert_type:
  "risk_level (create_alert u cid t d) =
     (if t \<in> {PEP_DETECTED, SANCTIONS_MATCH, FRAUD_INDICATOR} then ''CRITICAL''
      else if t \<in> {HIGH_RISK_CUSTOMER, SUSPICIOUS_PATTERN} then ''HIGH''
      else ''MEDIUM'') \<and>
   (\<forall>a \<in> set (evaluate_customer_alerts fmt uuid4 c).
      risk_level a = spec_risk_level (alert_type a)) \<and>
   (\<forall>a \<in> set (generate_alerts fmt uuid4 now customer_profiles).
      risk_level a = spec_risk_level (alert_type a))"
proof (intro conjI ballI)
  show "risk_level (create_alert u cid t d) =
     (if t \<in> {PEP_DETECTED, SANCTIONS_MATCH, FRAUD_INDICATOR} then ''CRITICAL''
      else if t \<in> {HIGH_RISK_CUSTOMER, SUSPICIOUS_PATTERN} then ''HIGH''
      else ''MEDIUM'')"
    by (simp add: create_alert_fields determine_risk_level_def)
next
  fix a assume "a \<in> set (evaluate_customer_alerts fmt uuid4 c)"
  then obtain u' t' d' where "a = create_alert u' (customer_id c) t' d'"
    using evaluate_alerts_created by blast
  then show "risk_level a = spec_risk_level (alert_type a)"
    by (simp only: create_alert_risk_level)
next
  fix a assume "a \<in> set (generate_alerts fmt uuid4 now customer_profiles)"
  then obtain b where b: "b \<in> set (extend_alerts fmt uuid4 [] customer_profiles)"
    and a: "a = alert.extend b
            \<lparr>alert_created_at = now, alert_status = ''OPEN'', alert_assigned_to = None\<rparr>"
    unfolding generate_alerts_def by auto
  from b obtain u' cid' t' d' where b': "b = create_alert u' cid' t' d'"
    using extend_alerts_created [of b fmt uuid4 "[]" customer_profiles] by auto
  have "risk_level a = risk_level b" "alert_type a = alert_type b"
    unfolding a b' by (simp_all add: alert.defs create_alert_def Let_def)
  then show "risk_level a = spec_risk_level (alert_type a)"
    unfolding b' by (simp only: create_alert_risk_level)
qed


lemma pep_profile_alerts:
  "evaluate_customer_alerts sample_format sample_uuid4 pep_profile =
     [\<lparr>alert_id = ''alert-'', alert_customer_id = ''C100'', alert_type = ''HIGH_RISK_CUSTOMER'',
       priority = ''HIGH'', description = ''Customer risk score exceeds threshold'',
       details = ''Critical risk score: 90.0'', risk_level = ''HIGH''\<rparr>,
      pep_alert_row]"
  by (simp add: evaluate_customer_alerts_def Let_def pep_profile_def sample_format_def
      sample_uuid4_def pep_alert_row_def create_alert_def determine_risk_level_def
      critical_risk_score_def high_risk_score_def pep_alert_def sanctions_alert_def
      fraud_count_threshold_def)

lemma high_profile_alerts:
  "evaluate_customer_alerts sample_format sample_uuid4 high_profile =
     [\<lparr>alert_id = ''alert-'', alert_customer_id = ''C200'', alert_type = ''HIGH_RISK_CUSTOMER'',
       priority = ''HIGH'', description = ''Customer risk score exceeds threshold'',
       details = ''High risk score: 70.0'', risk_level = ''HIGH''\<rparr>]"
  by (simp add: evaluate_customer_alerts_def Let_def high_profile_def sample_format_def
      sample_uuid4_def create_alert_def determine_risk_level_def
      critical_risk_score_def high_risk_score_def pep_alert_def sanctions_alert_def
      fraud_count_threshold_def)

text \<open>The two alerts of the PEP profile with score 90 follow the table.\<close>

theorem risk_level_by_alert_type_witness:
  "list_all (\<lambda>a. risk_level a = spec_risk_level (alert_type a))
     (evaluate_customer_alerts sample_format sample_uuid4 pep_profile) \<and>
   map risk_level (evaluate_customer_alerts sample_format sample_uuid4 pep_profile) =
     [''HIGH'', ''CRITICAL'']"
  using risk_level_by_alert_type [of "''u''" "''c''" PEP_DETECTED "''d''" sample_format sample_uuid4 pep_profile 0 "[]"]
  by (simp add: pep_profile_alerts pep_alert_row_def list_all_iff)

lemma high_risk_alert_only:
  assumes "enhanced_risk_score c \<ge> 60"
  shows "filter (\<lambda>a. alert_type a = ''HIGH_RISK_CUSTOMER'') (evaluate_customer_alerts fmt uuid4 c) =
     [\<lparr>alert_id = uuid4 0, alert_customer_id = customer_id c, alert_type = ''HIGH_RISK_CUSTOMER'',
       priority = ''HIGH'', description = ''Customer risk score exceeds threshold'',
       details = (if enhanced_risk_score c \<ge> 85 then ''Critical risk score: '' else ''High risk score: '')
                 @ str_float fmt (enhanced_risk_score c),
       risk_level = ''HIGH''\<rparr>]"
proof -
  obtain s1 s2 s3 s4 s5 where
    eq: "evaluate_customer_alerts fmt uuid4 c = s1 @ s2 @ s3 @ s4 @ s5"
    and s1: "s1 = (if enhanced_risk_score c \<ge> critical_risk_score then
             [create_alert (uuid4 0) (customer_id c) HIGH_RISK_CUSTOMER
                (''Critical risk score: '' @ str_float fmt (enhanced_risk_score c))]
           else if enhanced_risk_score c \<ge> high_risk_score then
             [create_alert (uuid4 0) (customer_id c) HIGH_RISK_CUSTOMER
                (''High risk score: '' @ str_float fmt (enhanced_risk_score c))]
           else [])"
    and s2: "s2 = (if is_pep c \<and> pep_alert then
             [create_alert (uuid4 (length s1)) (customer_id c) PEP_DETECTED
                (''PEP Category: '' @ pep_category c @ '', Occupation: '' @ occupation c)]
           else [])"
    and s3: "s3 = (if sanctions_risk c \<and> sanctions_alert then
             [create_alert (uuid4 (length (s1 @ s2))) (customer_id c) SANCTIONS_MATCH
                (''Sanctioned jurisdiction: '' @ nationality c)]
           else [])"
    and s4: "s4 = (case fraud_count c of
             Some n \<Rightarrow> if n \<ge> fraud_count_threshold then
                 [create_alert (uuid4 (length (s1 @ s2 @ s3))) (customer_id c) FRAUD_INDICATOR
                    (''Fraud history: '' @ str_int fmt n @ '' incidents'')]
               else []
           | None \<Rightarrow> [])"
    and s5: "s5 = (case total_amount c of
             Some a \<Rightarrow> if a \<ge> large_transaction then
                 [create_alert (uuid4 (length (s1 @ s2 @ s3 @ s4))) (customer_id c) LARGE_TRANSACTION
                    (''Large transaction volume: $'' @ fmt_money fmt a)]
               else []
           | None \<Rightarrow> [])"
    using evaluate_decompose [of fmt uuid4 c] by blast
  have f1: "filter (\<lambda>a. alert_type a = ''HIGH_RISK_CUSTOMER'') s1 =
     [\<lparr>alert_id = uuid4 0, alert_customer_id = customer_id c, alert_type = ''HIGH_RISK_CUSTOMER'',
       priority = ''HIGH'', description = ''Customer risk score exceeds threshold'',
       details = (if enhanced_risk_score c \<ge> 85 then ''Critical risk score: '' else ''High risk score: '')
                 @ str_float fmt (enhanced_risk_score c),
       risk_level = ''HIGH''\<rparr>]"
    using assms unfolding s1
    by (simp add: create_alert_def determine_risk_level_def critical_risk_score_def
        high_risk_score_def)
  have f2: "filter (\<lambda>a. alert_type a = ''HIGH_RISK_CUSTOMER'') s2 = []"
    unfolding s2 by (simp add: create_alert_fields)
  have f3: "filter (\<lambda>a. alert_type a = ''HIGH_RISK_CUSTOMER'') s3 = []"
    unfolding s3 by (simp add: create_alert_fields)
  have f4: "filter (\<lambda>a. alert_type a = ''HIGH_RISK_CUSTOMER'') s4 = []"
    unfolding s4 by (simp add: create_alert_fields split: option.split)
  have f5: "filter (\<lambda>a. alert_type a = ''HIGH_RISK_CUSTOMER'') s5 = []"
    unfolding s5 by (simp add: create_alert_fields split: option.split)
  show ?thesis
    unfolding eq filter_append f1 f2 f3 f4 f5 by simp
qed

text \<open>
  Claim C5, as the source has it.  A profile with a score of at least 85 gets exactly
  one HIGH_RISK_CUSTOMER alert, with priority HIGH and risk level HIGH, whose details
  say that the score is critical; a profile with a score from 60 up to 85 gets exactly
  one, with priority HIGH and risk level HIGH, whose details say that the score is high.
\<close>

theorem high_risk_customer_alert:
  "(enhanced_risk_score c \<ge> 85 \<longrightarrow>
      filter (\<lambda>a. alert_type a = ''HIGH_RISK_CUSTOMER'') (evaluate_customer_alerts fmt uuid4 c) =
        [\<lparr>alert_id = uuid4 0, alert_customer_id = customer_id c,
          alert_type = ''HIGH_RISK_CUSTOMER'', priority = ''HIGH'',
          description = ''Customer risk score exceeds threshold'',
          details = ''Critical risk score: '' @ str_float fmt (enhanced_risk_score c),
          risk_level = ''HIGH''\<rparr>]) \<and>
   (60 \<le> enhanced_risk_score c \<and> enhanced_risk_score c < 85 \<longrightarrow>
      filter (\<lambda>a. alert_type a = ''HIGH_RISK_CUSTOMER'') (evaluate_customer_alerts fmt uuid4 c) =
        [\<lparr>alert_id = uuid4 0, alert_customer_id = customer_id c,
          alert_type = ''HIGH_RISK_CUSTOMER'', priority = ''HIGH'',
          description = ''Customer risk score exceeds threshold'',
          details = ''High risk score: '' @ str_float fmt (enhanced_risk_score c),
          risk_level = ''HIGH''\<rparr>])"
proof (intro conjI impI)
  assume "enhanced_risk_score c \<ge> 85"
  then show "filter (\<lambda>a. alert_type a = ''HIGH_RISK_CUSTOMER'') (evaluate_customer_alerts fmt uuid4 c) =
        [\<lparr>alert_id = uuid4 0, alert_customer_id = customer_id c,
          alert_type = ''HIGH_RISK_CUSTOMER'', priority = ''HIGH'',
          description = ''Customer risk score exceeds threshold'',
          details = ''Critical risk score: '' @ str_float fmt (enhanced_risk_score c),
          risk_level = ''HIGH''\<rparr>]"
    using high_risk_alert_only [of c fmt uuid4] by simp
next
  assume "60 \<le> enhanced_risk_score c \<and> enhanced_risk_score c < 85"
  then show "filter (\<lambda>a. alert_type a = ''HIGH_RISK_CUSTOMER'') (evaluate_customer_alerts fmt uuid4 c) =
        [\<lparr>alert_id = uuid4 0, alert_customer_id = customer_id c,
          alert_type = ''HIGH_RISK_CUSTOMER'', priority = ''HIGH'',
          description = ''Customer risk score exceeds threshold'',
          details = ''High risk score: '' @ str_float fmt (enhanced_risk_score c),
          risk_level = ''HIGH''\<rparr>]"
    using high_risk_alert_only [of c fmt uuid4] by simp
qed

text \<open>The theorem at the profiles with scores 90 and 70.\<close>

theorem high_risk_customer_alert_witness:
  "enhanced_risk_score pep_profile \<ge> 85 \<and>
   60 \<le> enhanced_risk_score high_profile \<and> enhanced_risk_score high_profile < 85 \<and>
   map risk_level (filter (\<lambda>a. alert_type a = ''HIGH_RISK_CUSTOMER'')
     (evaluate_customer_alerts sample_format sample_uuid4 pep_profile)) = [''HIGH''] \<and>
   map risk_level (filter (\<lambda>a. alert_type a = ''HIGH_RISK_CUSTOMER'')
     (evaluate_customer_alerts sample_format sample_uuid4 high_profile)) = [''HIGH'']"
  using high_risk_customer_alert [of pep_profile sample_format sample_uuid4]
    high_risk_customer_alert [of high_profile sample_format sample_uuid4]
  by (simp add: pep_profile_def high_profile_def)

text \<open>
  The profile with score 90 gets two alerts; the HIGH_RISK_CUSTOMER alert has the risk
  level HIGH, and no alert is a HIGH_RISK_CUSTOMER alert of risk level CRITICAL.
\<close>

theorem critical_score_alert_risk_level_high:
  "map (\<lambda>a. (alert_type a, priority a, risk_level a))
     (evaluate_customer_alerts sample_format sample_uuid4 pep_profile) =
     [(''HIGH_RISK_CUSTOMER'', ''HIGH'', ''HIGH''), (''PEP_DETECTED'', ''CRITICAL'', ''CRITICAL'')] \<and>
   enhanced_risk_score pep_profile = 90"
  by (simp add: pep_profile_alerts pep_alert_row_def) (simp add: pep_profile_def)

text \<open>
  Claim C6.  The evaluation of a profile with \<open>is_pep\<close> set yields exactly one
  PEP_DETECTED alert, with priority CRITICAL and risk level CRITICAL, whatever the other
  fields of the profile are.
\<close>

theorem pep_alert_exactly_one:
  assumes "is_pep c"
  shows "filter (\<lambda>a. alert_type a = ''PEP_DETECTED'') (evaluate_customer_alerts fmt uuid4 c) =
     [\<lparr>alert_id = uuid4 (if enhanced_risk_score c \<ge> 60 then 1 else 0),
       alert_customer_id = customer_id c,
       alert_type = ''PEP_DETECTED'', priority = ''CRITICAL'',
       description = ''Politically Exposed Person identified'',
       details = ''PEP Category: '' @ pep_category c @ '', Occupation: '' @ occupation c,
       risk_level = ''CRITICAL''\<rparr>]"
proof -
  obtain s1 s2 s3 s4 s5 where
    eq: "evaluate_customer_alerts fmt uuid4 c = s1 @ s2 @ s3 @ s4 @ s5"
    and s1: "s1 = (if enhanced_risk_score c \<ge> critical_risk_score then
             [create_alert (uuid4 0) (customer_id c) HIGH_RISK_CUSTOMER
                (''Critical risk score: '' @ str_float fmt (enhanced_risk_score c))]
           else if enhanced_risk_score c \<ge> high_risk_score then
             [create_alert (uuid4 0) (customer_id c) HIGH_RISK_CUSTOMER
                (''High risk score: '' @ str_float fmt (enhanced_risk_score c))]
           else [])"
    and s2: "s2 = (if is_pep c \<and> pep_alert then
             [create_alert (uuid4 (length s1)) (customer_id c) PEP_DETECTED
                (''PEP Category: '' @ pep_category c @ '', Occupation: '' @ occupation c)]
           else [])"
    and s3: "s3 = (if sanctions_risk c \<and> sanctions_alert then
             [create_alert (uuid4 (length (s1 @ s2))) (customer_id c) SANCTIONS_MATCH
                (''Sanctioned jurisdiction: '' @ nationality c)]
           else [])"
    and s4: "s4 = (case fraud_count c of
             Some n \<Rightarrow> if n \<ge> fraud_count_threshold then
                 [create_alert (uuid4 (length (s1 @ s2 @ s3))) (customer_id c) FRAUD_INDICATOR
                    (''Fraud history: '' @ str_int fmt n @ '' incidents'')]
               else []
           | None \<Rightarrow> [])"
    and s5: "s5 = (case total_amount c of
             Some a \<Rightarrow> if a \<ge> large_transaction then
                 [create_alert (uuid4 (length (s1 @ s2 @ s3 @ s4))) (customer_id c) LARGE_TRANSACTION
                    (''Large transaction volume: $'' @ fmt_money fmt a)]
               else []
           | None \<Rightarrow> [])"
    using evaluate_decompose [of fmt uuid4 c] by blast
  have len: "length s1 = (if enhanced_risk_score c \<ge> 60 then 1 else 0)"
    unfolding s1 by (simp add: critical_risk_score_def high_risk_score_def)
  have f1: "filter (\<lambda>a. alert_type a = ''PEP_DETECTED'') s1 = []"
    unfolding s1 by (simp add: create_alert_fields)
  have f2: "filter (\<lambda>a. alert_type a = ''PEP_DETECTED'') s2 =
     [\<lparr>alert_id = uuid4 (if enhanced_risk_score c \<ge> 60 then 1 else 0),
       alert_customer_id = customer_id c,
       alert_type = ''PEP_DETECTED'', priority = ''CRITICAL'',
       description = ''Politically Exposed Person identified'',
       details = ''PEP Category: '' @ pep_category c @ '', Occupation: '' @ occupation c,
       risk_level = ''CRITICAL''\<rparr>]"
    using assms unfolding s2 len
    by (simp add: create_alert_def determine_risk_level_def pep_alert_def)
  have f3: "filter (\<lambda>a. alert_type a = ''PEP_DETECTED'') s3 = []"
    unfolding s3 by (simp add: create_alert_fields)
  have f4: "filter (\<lambda>a. alert_type a = ''PEP_DETECTED'') s4 = []"
    unfolding s4 by (simp add: create_alert_fields split: option.split)
  have f5: "filter (\<lambda>a. alert_type a = ''PEP_DETECTED'') s5 = []"
    unfolding s5 by (simp add: create_alert_fields split: option.split)
  show ?thesis
    unfolding eq filter_append f1 f2 f3 f4 f5 by simp
qed

text \<open>The theorem at the PEP profile.\<close>

theorem pep_alert_exactly_one_witness:
  "is_pep pep_profile \<and>
   filter (\<lambda>a. alert_type a = ''PEP_DETECTED'')
     (evaluate_customer_alerts sample_format sample_uuid4 pep_profile) = [pep_alert_row]"
  using pep_alert_exactly_one [of pep_profile sample_format sample_uuid4]
  by (simp add: pep_profile_def pep_alert_row_def sample_uuid4_def)


section \<open>The case manager\<close>

lemma log_case_action_fields:
  "cases (log_case_action u t m cid ty d an) = cases m"
  "case_actions (log_case_action u t m cid ty d an) =
     case_actions m @ [\<lparr>action_id = u, action_case_id = cid, action_type = ty,
                         action_description = d, analyst_name = an, timestamp = t\<rparr>]"
  by (simp_all add: log_case_action_def Let_def)

lemma loc_assign_fields:
  "cases (loc_assign m cid upd) = map (\<lambda>c. if case_id c = cid then upd c else c) (cases m)"
  "case_actions (loc_assign m cid upd) = case_actions m"
  by (simp_all add: loc_assign_def)

lemma mask_any_iff: "mask_any m cid \<longleftrightarrow> cid \<in> case_id ` set (cases m)"
  by (auto simp: mask_any_def list_ex_iff)

lemma update_case_status_absent:
  "cid \<notin> case_id ` set (cases m) \<Longrightarrow>
   update_case_status now_updated uuid_action now_log m cid new_status notes = Returns m"
  by (simp add: update_case_status_def mask_any_iff)

text \<open>
  Claim C8, as the source has it.  For every case identifier that is not in the case
  table, \<open>update_case_status\<close> returns without an error and changes neither the case
  table nor the action log.
\<close>

theorem update_unknown_case_no_mutation:
  assumes "cid \<notin> case_id ` set (cases m)"
  shows "update_case_status now_updated uuid_action now_log m cid new_status notes = Returns m"
  using assms by (rule update_case_status_absent)

text \<open>The sample states are reached by the operations of the case manager.\<close>

lemma create_pep_case:
  "create_case_from_alert ''case-1'' 10 11 ''action-1'' 12 AMLCaseManager_init pep_alert_row =
     Returns (one_case_manager, ''case-1'')"
  by (simp add: create_case_from_alert_def Let_def AMLCaseManager_init_def pep_alert_row_def
      one_case_manager_def pep_case_def created_action_def log_case_action_def
      determine_case_type_def auto_assign_case_def calculate_due_date_def sla_hours_def
      timedelta_hours_def)


text \<open>The theorem at a case manager with one case and an unknown identifier.\<close>

theorem update_unknown_case_no_mutation_witness:
  "''case-9'' \<notin> case_id ` set (cases one_case_manager) \<and>
   update_case_status 30 ''action-2'' 31 one_case_manager ''case-9'' ''IN_PROGRESS'' ''started'' =
     Returns one_case_manager"
  using update_unknown_case_no_mutation
    [of "''case-9''" one_case_manager 30 "''action-2''" 31 "''IN_PROGRESS''" "''started''"]
  by (simp add: one_case_manager_def pep_case_def)

text \<open>
  On an identifier that is not in the table, \<open>update_case_status\<close> raises no
  CaseNotFoundError, be the table empty or not.
\<close>

theorem update_unknown_case_no_error:
  "update_case_status 30 ''action-2'' 31 one_case_manager ''case-9'' ''IN_PROGRESS'' ''started''
     \<noteq> Raises ''CaseNotFoundError'' \<and>
   update_case_status 30 ''action-2'' 31 AMLCaseManager_init ''case-9'' ''IN_PROGRESS'' ''started''
     \<noteq> Raises ''CaseNotFoundError'' \<and>
   map case_id (cases one_case_manager) = [''case-1'']"
  by (simp add: update_case_status_def mask_any_def one_case_manager_def pep_case_def
      AMLCaseManager_init_def)

lemma filter_absent: "cid \<notin> case_id ` set xs \<Longrightarrow> filter (\<lambda>c. case_id c = cid) xs = []"
  by (induction xs) auto

lemma map_absent:
  "cid \<notin> case_id ` set xs \<Longrightarrow> map (\<lambda>c. if case_id c = cid then f c else c) xs = xs"
  by (induction xs) auto

text \<open>
  Claim C3, as the source has it.  For every case whose status is CLOSED,
  \<open>update_case_status\<close> to any status returns without an error: the status of the case
  becomes the new status, \<open>last_updated\<close> is set, every other field and every other
  case is unchanged, and a STATUS_CHANGED action from CLOSED to the new status is
  logged.  The case identifier is that of one row only, as \<open>uuid4\<close> provides.
\<close>

theorem update_closed_case_succeeds:
  assumes "cases m = pre @ c # post" and "case_id c = cid"
    and "cid \<notin> case_id ` set pre" and "cid \<notin> case_id ` set post"
    and "status c = ''CLOSED''"
  shows "update_case_status now_updated uuid_action now_log m cid new_status notes =
     Returns \<lparr>cases = pre @ c\<lparr>status := new_status, last_updated := Some now_updated\<rparr> # post,
              case_actions = case_actions m @
                [\<lparr>action_id = uuid_action, action_case_id = cid,
                  action_type = ''STATUS_CHANGED'',
                  action_description =
                    ''Status changed from CLOSED to '' @ new_status @ ''. '' @ notes,
                  analyst_name = ''SYSTEM'', timestamp = now_log\<rparr>]\<rparr>"
proof -
  have any: "mask_any m cid" using assms(1,2) by (simp add: mask_any_iff)
  have old: "status (hd (filter (\<lambda>x. case_id x = cid) (cases m))) = ''CLOSED''"
    using assms by (simp add: filter_absent)
  have upd: "cases (loc_assign (loc_assign m cid (\<lambda>x. x\<lparr>status := new_status\<rparr>)) cid
                 (\<lambda>x. x\<lparr>last_updated := Some now_updated\<rparr>)) =
             pre @ c\<lparr>status := new_status, last_updated := Some now_updated\<rparr> # post"
    using assms by (simp add: loc_assign_fields map_absent comp_def)
  show ?thesis
    unfolding update_case_status_def Let_def old
    using any assms(1) upd
    by (simp add: log_case_action_def loc_assign_fields)
qed

text \<open>The theorem at the closed sample case, moved to IN_PROGRESS.\<close>

theorem update_closed_case_succeeds_witness:
  "cases closed_manager = [] @ hd (cases closed_manager) # [] \<and>
   status (hd (cases closed_manager)) = ''CLOSED'' \<and>
   update_case_status 30 ''action-4'' 31 closed_manager ''case-1'' ''IN_PROGRESS'' ''again'' =
     Returns \<lparr>cases = [hd (cases closed_manager)\<lparr>status := ''IN_PROGRESS'', last_updated := Some 30\<rparr>],
              case_actions = case_actions closed_manager @
                [\<lparr>action_id = ''action-4'', action_case_id = ''case-1'',
                  action_type = ''STATUS_CHANGED'',
                  action_description = ''Status changed from CLOSED to IN_PROGRESS. again'',
                  analyst_name = ''SYSTEM'', timestamp = 31\<rparr>]\<rparr>"
  using update_closed_case_succeeds [of closed_manager "[]" "hd (cases closed_manager)" "[]"
      "''case-1''" 30 "''action-4''" 31 "''IN_PROGRESS''" "''again''"]
  by (simp add: closed_manager_def pep_case_def)

text \<open>
  The closed sample case is moved to OPEN by \<open>update_case_status\<close>: no error, the
  status is changed, \<open>last_updated\<close> is changed and an action is logged.
\<close>

theorem closed_case_reopened:
  "map status (cases closed_manager) = [''CLOSED''] \<and>
   update_case_status 30 ''action-4'' 31 closed_manager ''case-1'' ''OPEN'' ''reopened'' =
     Returns \<lparr>cases = [pep_case\<lparr>status := ''OPEN'', last_updated := Some 30, closed_at := Some 23,
                                 resolution := Some ''False positive''\<rparr>],
              case_actions = case_actions closed_manager @
                [\<lparr>action_id = ''action-4'', action_case_id = ''case-1'',
                  action_type = ''STATUS_CHANGED'',
                  action_description = ''Status changed from CLOSED to OPEN. reopened'',
                  analyst_name = ''SYSTEM'', timestamp = 31\<rparr>]\<rparr>"
  by (simp add: update_case_status_def Let_def mask_any_def loc_assign_def
      log_case_action_def closed_manager_def pep_case_def)

lemma sla_hours_get:
  "(case sla_hours p of Some h \<Rightarrow> h | None \<Rightarrow> 168) = spec_sla_hours p"
  by (simp add: sla_hours_def spec_sla_hours_def)

text \<open>
  Claim C7, as the source has it.  The case made by \<open>create_case_from_alert\<close> has
  \<open>created_at\<close> equal to the first reading of the clock and \<open>due_date\<close> equal to the
  second reading, made inside \<open>calculate_due_date\<close>, plus the service level of the
  priority: 4 hours for CRITICAL, 24 for HIGH, 72 for MEDIUM, 168 for LOW and for every
  other priority.  So \<open>due_date - created_at\<close> is the service level plus the time between
  the two readings.
\<close>

theorem due_date_from_second_clock_reading:
  "\<exists>c. create_case_from_alert uuid_case now_created now_due uuid_action now_log m a =
          Returns (m\<lparr>cases := cases m @ [c],
                     case_actions := case_actions m @
                       [\<lparr>action_id = uuid_action, action_case_id = uuid_case,
                         action_type = ''CASE_CREATED'',
                         action_description = ''Case automatically created from alert'',
                         analyst_name = ''SYSTEM'', timestamp = now_log\<rparr>]\<rparr>, uuid_case) \<and>
        case_id c = uuid_case \<and> case_priority c = priority a \<and>
        created_at c = now_created \<and>
        due_date c = now_due + spec_sla_hours (priority a) * 3600 * 1000000 \<and>
        due_date c - created_at c =
          spec_sla_hours (priority a) * 3600 * 1000000 + (now_due - now_created)"
proof -
  let ?c = "\<lparr>case_id = uuid_case,
             case_customer_id = alert_customer_id a,
             case_alert_id = alert_id a,
             case_type = CaseType_value (determine_case_type (alert_type a)),
             case_priority = priority a,
             status = CaseStatus_value OPEN,
             created_at = now_created,
             assigned_to = auto_assign_case (priority a),
             due_date = calculate_due_date now_due (priority a),
             case_description = ''Investigation case for '' @ alert_type a @ '': '' @ details a,
             case_risk_level = risk_level a,
             last_updated = None, closed_at = None, resolution = None\<rparr>"
  have due: "calculate_due_date now_due (priority a) =
      now_due + spec_sla_hours (priority a) * 3600 * 1000000"
    by (simp add: calculate_due_date_def sla_hours_get timedelta_hours_def)
  have ret: "create_case_from_alert uuid_case now_created now_due uuid_action now_log m a =
          Returns (m\<lparr>cases := cases m @ [?c],
                     case_actions := case_actions m @
                       [\<lparr>action_id = uuid_action, action_case_id = uuid_case,
                         action_type = ''CASE_CREATED'',
                         action_description = ''Case automatically created from alert'',
                         analyst_name = ''SYSTEM'', timestamp = now_log\<rparr>]\<rparr>, uuid_case)"
    by (simp add: create_case_from_alert_def Let_def log_case_action_def)
  show ?thesis
    by (rule exI [of _ ?c]) (simp add: ret due)
qed

text \<open>
  With the clock at 10 and then at 11 microseconds, the CRITICAL sample case is due one
  microsecond later than four hours after \<open>created_at\<close>.
\<close>

theorem due_date_not_created_plus_sla:
  "create_case_from_alert ''case-1'' 10 11 ''action-1'' 12 AMLCaseManager_init pep_alert_row =
     Returns (\<lparr>cases = [pep_case], case_actions = [created_action]\<rparr>, ''case-1'') \<and>
   case_priority pep_case = ''CRITICAL'' \<and> created_at pep_case = 10 \<and>
   due_date pep_case = 14400000011 \<and>
   due_date pep_case \<noteq> created_at pep_case + 4 * 3600 * 1000000"
  using create_pep_case by (simp add: one_case_manager_def pep_case_def)

text \<open>
  Claim C10.  For every case identifier, in the case table or not, \<open>add_case_notes\<close>
  returns without an error and appends a NOTES_ADDED action for that identifier to the
  log, the case table unchanged; \<open>close_case\<close> on an identifier that is not in the case
  table returns and appends a CASE_CLOSED action for it, the case table unchanged.
\<close>

theorem notes_and_close_on_any_case_id:
  "add_case_notes uuid_action now_log m cid notes analyst =
     Returns (m\<lparr>case_actions := case_actions m @
                [\<lparr>action_id = uuid_action, action_case_id = cid, action_type = ''NOTES_ADDED'',
                  action_description = notes, analyst_name = analyst,
                  timestamp = now_log\<rparr>]\<rparr>) \<and>
   (cid \<notin> case_id ` set (cases m) \<longrightarrow>
      close_case now_updated uuid_status now_status uuid_closed now_log now_closed m cid res analyst =
        Returns (m\<lparr>case_actions := case_actions m @
                   [\<lparr>action_id = uuid_closed, action_case_id = cid, action_type = ''CASE_CLOSED'',
                     action_description = ''Case closed. Resolution: '' @ res,
                     analyst_name = analyst, timestamp = now_log\<rparr>]\<rparr>))"
proof (intro conjI impI)
  show "add_case_notes uuid_action now_log m cid notes analyst =
     Returns (m\<lparr>case_actions := case_actions m @
                [\<lparr>action_id = uuid_action, action_case_id = cid, action_type = ''NOTES_ADDED'',
                  action_description = notes, analyst_name = analyst,
                  timestamp = now_log\<rparr>]\<rparr>)"
    by (simp add: add_case_notes_def log_case_action_def)
next
  assume absent: "cid \<notin> case_id ` set (cases m)"
  then have "\<not> mask_any (log_case_action uuid_closed now_log m cid ''CASE_CLOSED''
                 (''Case closed. Resolution: '' @ res) analyst) cid"
    by (simp add: mask_any_iff log_case_action_fields)
  then show "close_case now_updated uuid_status now_status uuid_closed now_log now_closed m cid res analyst =
        Returns (m\<lparr>case_actions := case_actions m @
                   [\<lparr>action_id = uuid_closed, action_case_id = cid, action_type = ''CASE_CLOSED'',
                     action_description = ''Case closed. Resolution: '' @ res,
                     analyst_name = analyst, timestamp = now_log\<rparr>]\<rparr>)"
    unfolding close_case_def update_case_status_absent [OF absent]
    by (simp add: Let_def) (simp add: log_case_action_def)
qed

text \<open>The theorem at a case manager with one case and an identifier of no case.\<close>

theorem notes_and_close_on_any_case_id_witness:
  "''ghost'' \<notin> case_id ` set (cases one_case_manager) \<and>
   add_case_notes ''action-5'' 40 one_case_manager ''ghost'' ''memo'' ''AML_Analyst_1'' =
     Returns \<lparr>cases = [pep_case],
              case_actions = [created_action,
                \<lparr>action_id = ''action-5'', action_case_id = ''ghost'', action_type = ''NOTES_ADDED'',
                  action_description = ''memo'', analyst_name = ''AML_Analyst_1'',
                  timestamp = 40\<rparr>]\<rparr> \<and>
   close_case 41 ''action-6'' 42 ''action-7'' 43 44 one_case_manager ''ghost'' ''n/a'' ''AML_Analyst_1'' =
     Returns \<lparr>cases = [pep_case],
              case_actions = [created_action,
                \<lparr>action_id = ''action-7'', action_case_id = ''ghost'', action_type = ''CASE_CLOSED'',
                  action_description = ''Case closed. Resolution: n/a'',
                  analyst_name = ''AML_Analyst_1'', timestamp = 43\<rparr>]\<rparr>"
  using notes_and_close_on_any_case_id [of "''action-5''" 40 one_case_manager "''ghost''" "''memo''"
      "''AML_Analyst_1''" 41 "''action-6''" 42 "''action-7''" 44 "''n/a''"]
    notes_and_close_on_any_case_id [of "''action-7''" 43 one_case_manager "''ghost''" "''memo''"
      "''AML_Analyst_1''" 41 "''action-6''" 42 "''action-7''" 44 "''n/a''"]
  by (simp add: one_case_manager_def pep_case_def)


section \<open>The audit trail\<close>


















end
